theory Spec2Isabelle
  imports Main
begin

section \<open>Error values\<close>

text \<open>
  Go errors are values; a function that returns \<^verbatim>\<open>(x, err)\<close> is modelled with a sum
  \<open>error + 'a\<close> (\<open>Inl\<close> the non-nil error), a function that returns only \<^verbatim>\<open>error\<close> with
  \<open>error option\<close> (\<open>None\<close> is nil). The sentinels of \<^verbatim>\<open>pkg/errors/errors.go\<close> that the
  authentication code uses are constructors, and so are the sentinels of the libraries it
  calls: \<^verbatim>\<open>sql.ErrNoRows\<close>, the errors of \<^verbatim>\<open>bcrypt\<close>, and an opaque error reported by the
  database driver. \<open>Errorf msg e\<close> is \<^verbatim>\<open>fmt.Errorf(msg + ": %w", e)\<close>: a new error value
  that unwraps to \<open>e\<close>.
\<close>

datatype error =
    ErrNotFound
  | ErrInvalidCredentials
  | ErrInvalidToken
  | ErrTokenExpired
  | ErrTokenRevoked
  | ErrUserDisabled
  | ErrEmailTaken
  | ErrUsernameTaken
  | ErrPasswordTooShort
  | SqlErrNoRows
  | BcryptErrPasswordTooLong
  | BcryptInvalidCostError int
  | BcryptErrMismatchedHashAndPassword
  | BcryptErrMalformedHash
  | DriverError string
  | ErrorsNew string
  | Errorf string error

text \<open>
  \<^verbatim>\<open>errors.Is(err, target)\<close>: walks the chain of wrapped errors and compares each link
  with the target.
\<close>

fun Is :: "error \<Rightarrow> error \<Rightarrow> bool" where
  "Is (Errorf msg e) target = (Errorf msg e = target \<or> Is e target)"
| "Is e target = (e = target)"

text \<open>
  \<^verbatim>\<open>errors.Wrap(err, message)\<close> for a non-nil \<open>err\<close> (for nil it returns nil; no call
  site of the authentication code passes nil).
\<close>

definition Wrap :: "error \<Rightarrow> string \<Rightarrow> error" where
  "Wrap err message = Errorf message err"

section \<open>Time\<close>

text \<open>
  An instant is a number of nanoseconds since the Unix epoch, a duration a number of
  nanoseconds. All clock readings of one call are taken at the same instant \<open>now\<close>.
\<close>

type_synonym time = int
type_synonym duration = int

definition Second :: duration where
  "Second = 1000000000"

definition Hour :: duration where
  "Hour = 3600 * Second"

definition After :: "time \<Rightarrow> time \<Rightarrow> bool" where
  "After t u = (u < t)"

definition Before :: "time \<Rightarrow> time \<Rightarrow> bool" where
  "Before t u = (t < u)"

section \<open>Signed tokens (golang-jwt/jwt/v5 as used by infrastructure/security/jwt.go)\<close>

text \<open>
  A token string is either the compact serialisation of a header, a claims object and
  signature bytes, or any other string (\<open>Opaque\<close>; \<open>Opaque []\<close> is the empty string),
  which the parser reports as malformed. Signature bytes are symbolic: \<open>HMAC h k hdr c\<close>
  stands for the HMAC with hash \<open>h\<close> and key \<open>k\<close> over the encoded header and claims,
  distinct arguments giving distinct bytes; \<open>SigOther\<close> is any other byte string.
  A numeric date is a whole number of seconds (the library truncates to the second when
  it creates and when it parses one).
\<close>

datatype hash = SHA256 | SHA384 | SHA512

datatype SigningMethod =
    SigningMethodHMAC hash
  | SigningMethodRSA hash
  | SigningMethodRSAPSS hash
  | SigningMethodECDSA hash
  | SigningMethodEd25519
  | SigningMethodNone

record Header =
  Header_typ :: "string option"
  Header_alg :: "string option"

record Claims =
  Claims_UserID :: string
  Claims_OrganizationID :: string
  Claims_RoleID :: string
  Claims_Email :: string
  Claims_Issuer :: string
  Claims_Subject :: string
  Claims_Audience :: "string list"
  Claims_ExpiresAt :: "int option"
  Claims_NotBefore :: "int option"
  Claims_IssuedAt :: "int option"
  Claims_ID :: string

datatype signature = HMAC hash string Header Claims | SigOther string

datatype token_string = Compact Header Claims signature | Opaque string

text \<open>The registry of signing methods of the library, by the header's \<^verbatim>\<open>alg\<close>.\<close>

definition GetSigningMethod :: "string \<Rightarrow> SigningMethod option" where
  "GetSigningMethod alg =
     (if alg = ''HS256'' then Some (SigningMethodHMAC SHA256)
      else if alg = ''HS384'' then Some (SigningMethodHMAC SHA384)
      else if alg = ''HS512'' then Some (SigningMethodHMAC SHA512)
      else if alg = ''RS256'' then Some (SigningMethodRSA SHA256)
      else if alg = ''RS384'' then Some (SigningMethodRSA SHA384)
      else if alg = ''RS512'' then Some (SigningMethodRSA SHA512)
      else if alg = ''PS256'' then Some (SigningMethodRSAPSS SHA256)
      else if alg = ''PS384'' then Some (SigningMethodRSAPSS SHA384)
      else if alg = ''PS512'' then Some (SigningMethodRSAPSS SHA512)
      else if alg = ''ES256'' then Some (SigningMethodECDSA SHA256)
      else if alg = ''ES384'' then Some (SigningMethodECDSA SHA384)
      else if alg = ''ES512'' then Some (SigningMethodECDSA SHA512)
      else if alg = ''EdDSA'' then Some SigningMethodEd25519
      else if alg = ''none'' then Some SigningMethodNone
      else None)"

datatype jwt_error =
    JwtErrTokenMalformed
  | JwtErrTokenUnverifiable
  | JwtErrTokenSignatureInvalid
  | JwtErrTokenInvalidClaims
  | JwtErrTokenExpired
  | JwtErrTokenNotValidYet

record JwtToken =
  JwtToken_Method :: SigningMethod
  JwtToken_Header :: Header
  JwtToken_Claims :: Claims
  JwtToken_Valid :: bool

text \<open>
  \<^verbatim>\<open>Method.Verify(signingString, sig, key)\<close> with a key of type \<^verbatim>\<open>[]byte\<close>: an HMAC
  method recomputes the HMAC and compares; every other method rejects a byte-slice key.
\<close>

definition Verify_sig :: "SigningMethod \<Rightarrow> Header \<Rightarrow> Claims \<Rightarrow> signature \<Rightarrow> string \<Rightarrow> bool" where
  "Verify_sig m hdr c sg key =
     (case m of SigningMethodHMAC h \<Rightarrow> sg = HMAC h key hdr c | _ \<Rightarrow> False)"

text \<open>
  The default claims validator: expiry and not-before are checked when present, with no
  leeway; the errors found are joined.
\<close>

definition Validate :: "time \<Rightarrow> Claims \<Rightarrow> jwt_error list" where
  "Validate now c =
     (case Claims_ExpiresAt c of
        None \<Rightarrow> []
      | Some ex \<Rightarrow> if Before now (ex * Second) then [] else [JwtErrTokenExpired])
     @ (case Claims_NotBefore c of
        None \<Rightarrow> []
      | Some nbf \<Rightarrow> if \<not> Before now (nbf * Second) then [] else [JwtErrTokenNotValidYet])"

text \<open>
  \<^verbatim>\<open>jwt.ParseWithClaims(tokenString, &Claims{}, keyFunc)\<close> with the default parser: split
  and decode, look the method up by the header's \<^verbatim>\<open>alg\<close>, ask the key function for
  the key, verify the signature, then validate the claims.
\<close>

definition ParseWithClaims ::
  "time \<Rightarrow> token_string \<Rightarrow> (JwtToken \<Rightarrow> error + string) \<Rightarrow> jwt_error list + JwtToken" where
  "ParseWithClaims now tokenString keyFunc =
     (case tokenString of
        Opaque s \<Rightarrow> Inl [JwtErrTokenMalformed]
      | Compact hdr c sg \<Rightarrow>
          (case Header_alg hdr of
             None \<Rightarrow> Inl [JwtErrTokenUnverifiable]
           | Some alg \<Rightarrow>
               (case GetSigningMethod alg of
                  None \<Rightarrow> Inl [JwtErrTokenUnverifiable]
                | Some m \<Rightarrow>
                    (let token = \<lparr>JwtToken_Method = m, JwtToken_Header = hdr,
                                  JwtToken_Claims = c, JwtToken_Valid = False\<rparr>
                     in case keyFunc token of
                          Inl err \<Rightarrow> Inl [JwtErrTokenUnverifiable]
                        | Inr key \<Rightarrow>
                            if \<not> Verify_sig m hdr c sg key then Inl [JwtErrTokenSignatureInvalid]
                            else (case Validate now c of
                                    [] \<Rightarrow> Inr (token\<lparr>JwtToken_Valid := True\<rparr>)
                                  | errs \<Rightarrow> Inl (JwtErrTokenInvalidClaims # errs))))))"


section \<open>Token Issuer (infrastructure/security/jwt.go)\<close>

record JWTManager =
  secret :: string
  accessTokenExpiry :: duration
  refreshTokenExpiry :: duration
  issuer :: string

record TokenPair =
  TokenPair_AccessToken :: token_string
  TokenPair_RefreshToken :: token_string
  TokenPair_ExpiresIn :: int
  TokenPair_TokenType :: string

text \<open>\<^verbatim>\<open>jwt.NewNumericDate(t)\<close>: the instant truncated to the second.\<close>

definition NewNumericDate :: "time \<Rightarrow> int" where
  "NewNumericDate t = t div Second"

text \<open>
  \<^verbatim>\<open>jwt.NewWithClaims(method, claims)\<close> followed by \<^verbatim>\<open>SignedString(key)\<close>: the header
  carries the type and the method's name; signing with an HMAC method and a byte-slice
  key does not fail.
\<close>

definition SignedString :: "hash \<Rightarrow> string \<Rightarrow> Claims \<Rightarrow> string \<Rightarrow> error + token_string" where
  "SignedString h alg claims key =
     (let hdr = \<lparr>Header_typ = Some ''JWT'', Header_alg = Some alg\<rparr>
      in Inr (Compact hdr claims (HMAC h key hdr claims)))"

definition generateAccessToken ::
  "JWTManager \<Rightarrow> time \<Rightarrow> string \<Rightarrow> string \<Rightarrow> string \<Rightarrow> string \<Rightarrow> error + token_string" where
  "generateAccessToken j now userID organizationID roleID email =
     (let expiresAt = now + accessTokenExpiry j;
          claims = \<lparr>Claims_UserID = userID, Claims_OrganizationID = organizationID,
                    Claims_RoleID = roleID, Claims_Email = email,
                    Claims_Issuer = issuer j, Claims_Subject = userID,
                    Claims_Audience = [],
                    Claims_ExpiresAt = Some (NewNumericDate expiresAt),
                    Claims_NotBefore = Some (NewNumericDate now),
                    Claims_IssuedAt = Some (NewNumericDate now),
                    Claims_ID = []\<rparr>
      in SignedString SHA256 ''HS256'' claims (secret j))"

definition generateRefreshToken ::
  "JWTManager \<Rightarrow> time \<Rightarrow> string \<Rightarrow> string \<Rightarrow> string \<Rightarrow> string \<Rightarrow> error + token_string" where
  "generateRefreshToken j now userID organizationID roleID email =
     (let expiresAt = now + refreshTokenExpiry j;
          claims = \<lparr>Claims_UserID = userID, Claims_OrganizationID = organizationID,
                    Claims_RoleID = roleID, Claims_Email = email,
                    Claims_Issuer = issuer j, Claims_Subject = userID,
                    Claims_Audience = [],
                    Claims_ExpiresAt = Some (NewNumericDate expiresAt),
                    Claims_NotBefore = Some (NewNumericDate now),
                    Claims_IssuedAt = Some (NewNumericDate now),
                    Claims_ID = []\<rparr>
      in SignedString SHA256 ''HS256'' claims (secret j))"

text \<open>\<^verbatim>\<open>int64(d.Seconds())\<close>: whole seconds of a duration, rounded towards zero.\<close>

definition Seconds_int64 :: "duration \<Rightarrow> int" where
  "Seconds_int64 d = (if 0 \<le> d then d div Second else - ((- d) div Second))"

definition GenerateTokenPair ::
  "JWTManager \<Rightarrow> time \<Rightarrow> string \<Rightarrow> string \<Rightarrow> string \<Rightarrow> string \<Rightarrow> error + TokenPair" where
  "GenerateTokenPair j now userID organizationID roleID email =
     (if userID = [] then Inl (ErrorsNew ''user_id is required'')
      else case generateAccessToken j now userID organizationID roleID email of
             Inl err \<Rightarrow> Inl (Errorf ''failed to generate access token'' err)
           | Inr accessToken \<Rightarrow>
               (case generateRefreshToken j now userID organizationID roleID email of
                  Inl err \<Rightarrow> Inl (Errorf ''failed to generate refresh token'' err)
                | Inr refreshToken \<Rightarrow>
                    Inr \<lparr>TokenPair_AccessToken = accessToken,
                         TokenPair_RefreshToken = refreshToken,
                         TokenPair_ExpiresIn = Seconds_int64 (accessTokenExpiry j),
                         TokenPair_TokenType = ''Bearer''\<rparr>))"

text \<open>
  The key function of \<^verbatim>\<open>JWTManager.ValidateToken\<close>: the type assertion
  \<^verbatim>\<open>token.Method.(*jwt.SigningMethodHMAC)\<close> holds for every method of the HMAC family.
\<close>

definition keyFunc :: "JWTManager \<Rightarrow> JwtToken \<Rightarrow> error + string" where
  "keyFunc j token =
     (case JwtToken_Method token of
        SigningMethodHMAC h \<Rightarrow> Inr (secret j)
      | _ \<Rightarrow> Inl (ErrorsNew ''unexpected signing method''))"

definition JWTManager_ValidateToken :: "JWTManager \<Rightarrow> time \<Rightarrow> token_string \<Rightarrow> error + Claims" where
  "JWTManager_ValidateToken j now tokenString =
     (if tokenString = Opaque [] then Inl ErrInvalidToken
      else case ParseWithClaims now tokenString (keyFunc j) of
             Inl err \<Rightarrow>
               if JwtErrTokenExpired \<in> set err then Inl ErrTokenExpired
               else Inl ErrInvalidToken
           | Inr token \<Rightarrow>
               if \<not> JwtToken_Valid token then Inl ErrInvalidToken
               else Inr (JwtToken_Claims token))"

section \<open>Credential Hasher (security.PasswordHandler over golang.org/x/crypto/bcrypt)\<close>

text \<open>
  A stored hash string is either a well-formed bcrypt hash, symbolically its cost, its
  salt and the key material that was hashed, or any other string. bcrypt keys the cipher
  with the password followed by a zero byte, repeated cyclically up to 72 bytes.
  \<^verbatim>\<open>GenerateFromPassword\<close> refuses a password longer than 72 bytes, replaces a cost
  below the minimum by the default, refuses a cost above the maximum, and reads the salt
  from the system's random source (\<open>rnd\<close> is the outcome of that read).
\<close>

datatype hash_string = BcryptHash int string string | NotBcrypt string

definition MinCost :: int where "MinCost = 4"
definition MaxCost :: int where "MaxCost = 31"
definition DefaultCost :: int where "DefaultCost = 10"

definition bcrypt_key :: "string \<Rightarrow> string" where
  "bcrypt_key password = take 72 (concat (replicate 72 (password @ [CHR 0x00])))"

definition GenerateFromPassword :: "(error + string) \<Rightarrow> string \<Rightarrow> int \<Rightarrow> error + hash_string" where
  "GenerateFromPassword rnd password c =
     (if length password > 72 then Inl BcryptErrPasswordTooLong
      else let c' = (if c < MinCost then DefaultCost else c)
           in if c' < MinCost \<or> c' > MaxCost then Inl (BcryptInvalidCostError c')
              else case rnd of
                     Inl err \<Rightarrow> Inl err
                   | Inr salt \<Rightarrow> Inr (BcryptHash c' salt (bcrypt_key password)))"

definition CompareHashAndPassword :: "hash_string \<Rightarrow> string \<Rightarrow> error option" where
  "CompareHashAndPassword hashedPassword password =
     (case hashedPassword of
        NotBcrypt s \<Rightarrow> Some BcryptErrMalformedHash
      | BcryptHash c salt k \<Rightarrow>
          if bcrypt_key password = k then None else Some BcryptErrMismatchedHashAndPassword)"

record PasswordHandler =
  cost :: int

definition NewPasswordHandler :: PasswordHandler where
  "NewPasswordHandler = \<lparr>cost = DefaultCost\<rparr>"

definition Hash :: "PasswordHandler \<Rightarrow> (error + string) \<Rightarrow> string \<Rightarrow> error + hash_string" where
  "Hash p rnd password =
     (if length password < 8 then Inl ErrPasswordTooShort
      else case GenerateFromPassword rnd password (cost p) of
             Inl err \<Rightarrow> Inl err
           | Inr bytes \<Rightarrow> Inr bytes)"

definition Verify :: "PasswordHandler \<Rightarrow> string \<Rightarrow> hash_string \<Rightarrow> bool" where
  "Verify p password hash = (CompareHashAndPassword hash password = None)"


section \<open>Domain entities (internal/auth/domain)\<close>

type_synonym UserStatus = string

definition UserStatusActive :: UserStatus where
  "UserStatusActive = ''active''"

record User =
  User_ID :: string
  User_OrganizationID :: string
  User_RoleID :: string
  User_Name :: string
  User_Username :: string
  User_EmployeeID :: "string option"
  User_Position :: "string option"
  User_Email :: string
  User_PasswordHash :: hash_string
  User_Address :: "string option"
  User_Phone :: "string option"
  User_Thumbnail :: "string option"
  User_Status :: UserStatus
  User_CreatedAt :: time
  User_UpdatedAt :: time

definition IsActive :: "User \<Rightarrow> bool" where
  "IsActive u = (User_Status u = UserStatusActive)"

record Token =
  Token_ID :: string
  Token_UserID :: string
  Token_AccessToken :: token_string
  Token_RefreshToken :: token_string
  Token_ExpiresAt :: time
  Token_Revoked :: bool
  Token_CreatedAt :: time

text \<open>\<^verbatim>\<open>Token.IsExpired\<close> and \<^verbatim>\<open>Token.IsValid\<close>, with the clock reading as an argument.\<close>

definition IsExpired :: "time \<Rightarrow> Token \<Rightarrow> bool" where
  "IsExpired now t = After now (Token_ExpiresAt t)"

definition IsValid :: "time \<Rightarrow> Token \<Rightarrow> bool" where
  "IsValid now t = (\<not> Token_Revoked t \<and> \<not> IsExpired now t)"

record LoginRequest =
  LoginRequest_Email :: string
  LoginRequest_Password :: string


record UserInfo =
  UserInfo_ID :: string
  UserInfo_OrganizationID :: string
  UserInfo_RoleID :: string
  UserInfo_Name :: string
  UserInfo_Username :: string
  UserInfo_Email :: string
  UserInfo_Thumbnail :: string

record AuthResponse =
  AuthResponse_User :: UserInfo
  AuthResponse_AccessToken :: token_string
  AuthResponse_RefreshToken :: token_string
  AuthResponse_ExpiresIn :: int
  AuthResponse_TokenType :: string

record TokenClaims =
  TokenClaims_UserID :: string
  TokenClaims_OrganizationID :: string
  TokenClaims_RoleID :: string
  TokenClaims_Name :: string
  TokenClaims_Username :: string
  TokenClaims_Email :: string

definition ToUserInfo :: "User \<Rightarrow> UserInfo" where
  "ToUserInfo u =
     \<lparr>UserInfo_ID = User_ID u, UserInfo_OrganizationID = User_OrganizationID u,
      UserInfo_RoleID = User_RoleID u, UserInfo_Name = User_Name u,
      UserInfo_Username = User_Username u, UserInfo_Email = User_Email u,
      UserInfo_Thumbnail = (case User_Thumbnail u of None \<Rightarrow> [] | Some th \<Rightarrow> th)\<rparr>"

section \<open>The database and the PostgreSQL repositories (internal/auth/repository)\<close>

text \<open>
  The two tables are lists of rows in table order. Every statement sent to the database
  can fail in the driver (connection lost, deadline exceeded, constraint violated): the
  argument \<open>f\<close> of a repository function is the driver's error for that statement, if
  any, and the statement takes effect only when there is none.
\<close>

record db =
  users :: "User list"
  tokens :: "Token list"

text \<open>
  \<^verbatim>\<open>sqlx.GetContext\<close> on the rows selected by the query: the driver's error, or
  \<^verbatim>\<open>sql.ErrNoRows\<close> when the result set is empty, or the first row.
\<close>

definition GetContext :: "string option \<Rightarrow> 'a list \<Rightarrow> error + 'a" where
  "GetContext f rows =
     (case f of
        Some msg \<Rightarrow> Inl (DriverError msg)
      | None \<Rightarrow> (case rows of [] \<Rightarrow> Inl SqlErrNoRows | r # rs \<Rightarrow> Inr r))"

text \<open>
  \<^verbatim>\<open>ORDER BY created_at DESC\<close>, as a stable sort: rows created at the same instant
  stay in table order.
\<close>

definition order_by_created_at_desc :: "Token list \<Rightarrow> Token list" where
  "order_by_created_at_desc rows = sort_key (\<lambda>t. - Token_CreatedAt t) rows"

text \<open>
  \<^verbatim>\<open>handleError\<close> of the two repositories, on the non-nil error its callers pass: the
  error is wrapped, whatever it is; \<^verbatim>\<open>sql.ErrNoRows\<close> gets no treatment of its own.
\<close>

definition user_handleError :: "error \<Rightarrow> error" where
  "user_handleError err = Wrap err ''database error''"

definition token_handleError :: "error \<Rightarrow> error" where
  "token_handleError err = Wrap err ''database error''"

definition GetUserByID :: "string option \<Rightarrow> db \<Rightarrow> string \<Rightarrow> error + User" where
  "GetUserByID f d ident =
     (case GetContext f (filter (\<lambda>u. User_ID u = ident \<and> User_Status u \<noteq> ''deleted'') (users d)) of
        Inl err \<Rightarrow> Inl (user_handleError err)
      | Inr user \<Rightarrow> Inr user)"

definition GetUserByEmail :: "string option \<Rightarrow> db \<Rightarrow> string \<Rightarrow> error + User" where
  "GetUserByEmail f d email =
     (case GetContext f (filter (\<lambda>u. User_Email u = email \<and> User_Status u \<noteq> ''deleted'') (users d)) of
        Inl err \<Rightarrow> Inl (user_handleError err)
      | Inr user \<Rightarrow> Inr user)"




definition CreateToken :: "string option \<Rightarrow> db \<Rightarrow> Token \<Rightarrow> error option \<times> db" where
  "CreateToken f d token =
     (case f of
        Some msg \<Rightarrow> (Some (Errorf ''failed to create token'' (DriverError msg)), d)
      | None \<Rightarrow> (None, d\<lparr>tokens := tokens d @ [token]\<rparr>))"

definition GetTokenByRefreshToken :: "string option \<Rightarrow> db \<Rightarrow> token_string \<Rightarrow> error + Token" where
  "GetTokenByRefreshToken f d refreshToken =
     (case GetContext f
             (order_by_created_at_desc
                (filter (\<lambda>t. Token_RefreshToken t = refreshToken) (tokens d))) of
        Inl err \<Rightarrow> Inl (token_handleError err)
      | Inr token \<Rightarrow> Inr token)"

definition GetTokenByAccessToken :: "string option \<Rightarrow> db \<Rightarrow> token_string \<Rightarrow> error + Token" where
  "GetTokenByAccessToken f d accessToken =
     (case GetContext f
             (order_by_created_at_desc
                (filter (\<lambda>t. Token_AccessToken t = accessToken) (tokens d))) of
        Inl err \<Rightarrow> Inl (token_handleError err)
      | Inr token \<Rightarrow> Inr token)"

text \<open>
  \<^verbatim>\<open>UPDATE tokens SET revoked = true WHERE ...\<close>: every row that satisfies the condition
  gets the flag, the others are left as they are, and the table order is kept.
\<close>

definition update_revoked :: "(Token \<Rightarrow> bool) \<Rightarrow> Token list \<Rightarrow> Token list" where
  "update_revoked P rows = map (\<lambda>t. if P t then t\<lparr>Token_Revoked := True\<rparr> else t) rows"

text \<open>\<^verbatim>\<open>RevokeToken\<close>: the update by ID, then the check of the count of affected rows.\<close>

definition RevokeToken :: "string option \<Rightarrow> db \<Rightarrow> string \<Rightarrow> error option \<times> db" where
  "RevokeToken f d ident =
     (case f of
        Some msg \<Rightarrow> (Some (Errorf ''failed to revoke token'' (DriverError msg)), d)
      | None \<Rightarrow>
          (let rows = length (filter (\<lambda>t. Token_ID t = ident) (tokens d));
               d' = d\<lparr>tokens := update_revoked (\<lambda>t. Token_ID t = ident) (tokens d)\<rparr>
           in if rows = 0 then (Some ErrNotFound, d') else (None, d')))"

definition RevokeUserTokens :: "string option \<Rightarrow> db \<Rightarrow> string \<Rightarrow> error option \<times> db" where
  "RevokeUserTokens f d userID =
     (case f of
        Some msg \<Rightarrow> (Some (Errorf ''failed to revoke user tokens'' (DriverError msg)), d)
      | None \<Rightarrow>
          (None, d\<lparr>tokens := update_revoked (\<lambda>t. Token_UserID t = userID) (tokens d)\<rparr>))"

text \<open>\<^verbatim>\<open>DELETE FROM tokens WHERE expires_at < NOW() OR revoked = true\<close>.\<close>

definition CleanupExpiredTokens :: "string option \<Rightarrow> time \<Rightarrow> db \<Rightarrow> error option \<times> db" where
  "CleanupExpiredTokens f now d =
     (case f of
        Some msg \<Rightarrow> (Some (Errorf ''failed to cleanup expired tokens'' (DriverError msg)), d)
      | None \<Rightarrow>
          (None, d\<lparr>tokens := filter (\<lambda>t. \<not> (Token_ExpiresAt t < now \<or> Token_Revoked t)) (tokens d)\<rparr>))"


section \<open>Auth Orchestrator (internal/auth/usecase/usecase.go)\<close>

text \<open>
  What one call takes from its environment: the clock reading, the identifiers drawn by
  \<^verbatim>\<open>uuid.New()\<close> in the order of the draws, the driver's error for each statement in the
  order the call issues them (no entry: the statement executes), and the outcome of
  reading the salt.
\<close>

record env =
  env_now :: time
  env_uuids :: "string list"
  env_faults :: "string option list"
  env_rand :: "error + string"

definition fault :: "env \<Rightarrow> nat \<Rightarrow> string option" where
  "fault e i = (if i < length (env_faults e) then env_faults e ! i else None)"

definition uuid_New :: "env \<Rightarrow> nat \<Rightarrow> string" where
  "uuid_New e i = (if i < length (env_uuids e) then env_uuids e ! i else [])"

record authUsecase =
  jwtManager :: JWTManager
  passwordHasher :: PasswordHandler

definition Days7 :: duration where
  "Days7 = 24 * Hour * 7"

definition Login :: "authUsecase \<Rightarrow> env \<Rightarrow> db \<Rightarrow> LoginRequest \<Rightarrow> (error + AuthResponse) \<times> db" where
  "Login a e d req =
     (case GetUserByEmail (fault e 0) d (LoginRequest_Email req) of
        Inl err \<Rightarrow>
          if Is err ErrNotFound then (Inl ErrInvalidCredentials, d)
          else (Inl (Errorf ''failed to get user'' err), d)
      | Inr user \<Rightarrow>
          if \<not> Verify (passwordHasher a) (LoginRequest_Password req) (User_PasswordHash user)
          then (Inl ErrInvalidCredentials, d)
          else if \<not> IsActive user then (Inl ErrUserDisabled, d)
          else (case GenerateTokenPair (jwtManager a) (env_now e) (User_ID user)
                       (User_OrganizationID user) (User_RoleID user) (User_Email user) of
                  Inl err \<Rightarrow> (Inl (Errorf ''failed to generate tokens'' err), d)
                | Inr tokenPair \<Rightarrow>
                    (let token = \<lparr>Token_ID = uuid_New e 0, Token_UserID = User_ID user,
                                  Token_AccessToken = TokenPair_AccessToken tokenPair,
                                  Token_RefreshToken = TokenPair_RefreshToken tokenPair,
                                  Token_ExpiresAt = env_now e + Days7,
                                  Token_Revoked = False, Token_CreatedAt = env_now e\<rparr>
                     in case CreateToken (fault e 1) d token of
                          (Some err, d') \<Rightarrow> (Inl (Errorf ''failed to store token'' err), d')
                        | (None, d') \<Rightarrow>
                            (Inr \<lparr>AuthResponse_User = ToUserInfo user,
                                  AuthResponse_AccessToken = TokenPair_AccessToken tokenPair,
                                  AuthResponse_RefreshToken = TokenPair_RefreshToken tokenPair,
                                  AuthResponse_ExpiresIn = TokenPair_ExpiresIn tokenPair,
                                  AuthResponse_TokenType = TokenPair_TokenType tokenPair\<rparr>, d'))))"



definition Logout :: "authUsecase \<Rightarrow> env \<Rightarrow> db \<Rightarrow> token_string \<Rightarrow> token_string \<Rightarrow> error option \<times> db" where
  "Logout a e d accessToken refreshToken =
     (case GetTokenByRefreshToken (fault e 0) d refreshToken of
        Inl err \<Rightarrow>
          if Is err ErrNotFound then (Some ErrInvalidToken, d)
          else (Some (Errorf ''failed to get token'' err), d)
      | Inr token \<Rightarrow>
          if Token_AccessToken token \<noteq> accessToken then (Some ErrInvalidToken, d)
          else (case RevokeToken (fault e 1) d (Token_ID token) of
                  (Some err, d') \<Rightarrow> (Some (Errorf ''failed to revoke token'' err), d')
                | (None, d') \<Rightarrow> (None, d')))"

definition RefreshToken :: "authUsecase \<Rightarrow> env \<Rightarrow> db \<Rightarrow> token_string \<Rightarrow> (error + AuthResponse) \<times> db" where
  "RefreshToken a e d refreshToken =
     (case GetTokenByRefreshToken (fault e 0) d refreshToken of
        Inl err \<Rightarrow>
          if Is err ErrNotFound then (Inl ErrInvalidToken, d)
          else (Inl (Errorf ''failed to get token'' err), d)
      | Inr storedToken \<Rightarrow>
          if \<not> IsValid (env_now e) storedToken then (Inl ErrTokenExpired, d)
          else (case GetUserByID (fault e 1) d (Token_UserID storedToken) of
                  Inl err \<Rightarrow> (Inl (Errorf ''failed to get user'' err), d)
                | Inr user \<Rightarrow>
          (case GenerateTokenPair (jwtManager a) (env_now e) (User_ID user)
                  (User_OrganizationID user) (User_RoleID user) (User_Email user) of
             Inl err \<Rightarrow> (Inl (Errorf ''failed to generate new tokens'' err), d)
           | Inr tokenPair \<Rightarrow>
          (case RevokeToken (fault e 2) d (Token_ID storedToken) of
             (Some err, d1) \<Rightarrow> (Inl (Errorf ''failed to revoke old token'' err), d1)
           | (None, d1) \<Rightarrow>
               (let newToken = \<lparr>Token_ID = uuid_New e 0, Token_UserID = User_ID user,
                                Token_AccessToken = TokenPair_AccessToken tokenPair,
                                Token_RefreshToken = TokenPair_RefreshToken tokenPair,
                                Token_ExpiresAt = env_now e + Days7,
                                Token_Revoked = False, Token_CreatedAt = env_now e\<rparr>
                in case CreateToken (fault e 3) d1 newToken of
                     (Some err, d2) \<Rightarrow> (Inl (Errorf ''failed to store new token'' err), d2)
                   | (None, d2) \<Rightarrow>
                       (Inr \<lparr>AuthResponse_User = ToUserInfo user,
                             AuthResponse_AccessToken = TokenPair_AccessToken tokenPair,
                             AuthResponse_RefreshToken = TokenPair_RefreshToken tokenPair,
                             AuthResponse_ExpiresIn = TokenPair_ExpiresIn tokenPair,
                             AuthResponse_TokenType = TokenPair_TokenType tokenPair\<rparr>, d2))))))"

definition RevokeAllTokens :: "authUsecase \<Rightarrow> env \<Rightarrow> db \<Rightarrow> string \<Rightarrow> error option \<times> db" where
  "RevokeAllTokens a e d userID =
     (case RevokeUserTokens (fault e 0) d userID of
        (Some err, d') \<Rightarrow> (Some (Errorf ''failed to revoke user tokens'' err), d')
      | (None, d') \<Rightarrow> (None, d'))"

definition ValidateToken :: "authUsecase \<Rightarrow> env \<Rightarrow> db \<Rightarrow> token_string \<Rightarrow> error + TokenClaims" where
  "ValidateToken a e d token =
     (case JWTManager_ValidateToken (jwtManager a) (env_now e) token of
        Inl err \<Rightarrow> Inl err
      | Inr claims \<Rightarrow>
          (let result = Inr \<lparr>TokenClaims_UserID = Claims_UserID claims,
                             TokenClaims_OrganizationID = Claims_OrganizationID claims,
                             TokenClaims_RoleID = Claims_RoleID claims,
                             TokenClaims_Name = [], TokenClaims_Username = [],
                             TokenClaims_Email = Claims_Email claims\<rparr>
           in case GetTokenByAccessToken (fault e 0) d token of
                Inl err \<Rightarrow>
                  if \<not> Is err ErrNotFound then Inl (Errorf ''failed to get stored token'' err)
                  else result
              | Inr storedToken \<Rightarrow>
                  if \<not> IsValid (env_now e) storedToken then Inl ErrTokenRevoked
                  else result))"


section \<open>Auxiliary definitions and example data\<close>

text \<open>The session row that \<^verbatim>\<open>RefreshToken\<close> builds for the new token pair.\<close>

definition newToken :: "env \<Rightarrow> User \<Rightarrow> TokenPair \<Rightarrow> Token" where
  "newToken e user tokenPair =
     \<lparr>Token_ID = uuid_New e 0, Token_UserID = User_ID user,
      Token_AccessToken = TokenPair_AccessToken tokenPair,
      Token_RefreshToken = TokenPair_RefreshToken tokenPair,
      Token_ExpiresAt = env_now e + Days7,
      Token_Revoked = False, Token_CreatedAt = env_now e\<rparr>"

definition example_session :: Token where
  "example_session =
     \<lparr>Token_ID = ''s1'', Token_UserID = ''u1'', Token_AccessToken = Opaque ''a'',
      Token_RefreshToken = Opaque ''r'', Token_ExpiresAt = 100,
      Token_Revoked = False, Token_CreatedAt = 0\<rparr>"

text \<open>
  A token issuer with the default expiries (15 minutes, 7 days), one active identity
  whose password is \<open>longenough1\<close>, and an environment without storage faults.
\<close>

definition example_manager :: JWTManager where
  "example_manager =
     \<lparr>secret = ''k'', accessTokenExpiry = 900 * Second, refreshTokenExpiry = 168 * Hour,
      issuer = ''portal-data-backend''\<rparr>"

definition example_usecase :: authUsecase where
  "example_usecase = \<lparr>jwtManager = example_manager, passwordHasher = NewPasswordHandler\<rparr>"

definition example_user :: User where
  "example_user =
     \<lparr>User_ID = ''u1'', User_OrganizationID = ''o1'', User_RoleID = ''r1'',
      User_Name = ''A'', User_Username = ''a'', User_EmployeeID = None,
      User_Position = None, User_Email = ''a@x.com'',
      User_PasswordHash = BcryptHash 10 ''salt'' (bcrypt_key ''longenough1''),
      User_Address = None, User_Phone = None, User_Thumbnail = None,
      User_Status = ''active'', User_CreatedAt = 0, User_UpdatedAt = 0\<rparr>"

definition example_db :: db where
  "example_db = \<lparr>users = [example_user], tokens = []\<rparr>"

definition env_at :: "time \<Rightarrow> string \<Rightarrow> env" where
  "env_at t ident = \<lparr>env_now = t, env_uuids = [ident], env_faults = [], env_rand = Inr ''salt''\<rparr>"

definition example_login :: LoginRequest where
  "example_login = \<lparr>LoginRequest_Email = ''a@x.com'', LoginRequest_Password = ''longenough1''\<rparr>"


text \<open>
  The tokens and the session row that the example issuer produces for the example
  identity at second \<open>iat\<close> (see \<open>example_login_stores_session\<close> below).
\<close>

definition header_with_alg :: "string \<Rightarrow> Header" where
  "header_with_alg alg = \<lparr>Header_typ = Some ''JWT'', Header_alg = Some alg\<rparr>"

definition issued_claims :: "int \<Rightarrow> int \<Rightarrow> Claims" where
  "issued_claims iat ex =
     \<lparr>Claims_UserID = ''u1'', Claims_OrganizationID = ''o1'', Claims_RoleID = ''r1'',
      Claims_Email = ''a@x.com'', Claims_Issuer = ''portal-data-backend'',
      Claims_Subject = ''u1'', Claims_Audience = [], Claims_ExpiresAt = Some ex,
      Claims_NotBefore = Some iat, Claims_IssuedAt = Some iat, Claims_ID = []\<rparr>"

definition issued_token :: "int \<Rightarrow> int \<Rightarrow> token_string" where
  "issued_token iat ex =
     Compact (header_with_alg ''HS256'') (issued_claims iat ex)
       (HMAC SHA256 ''k'' (header_with_alg ''HS256'') (issued_claims iat ex))"

definition issued_session :: "string \<Rightarrow> int \<Rightarrow> Token" where
  "issued_session ident iat =
     \<lparr>Token_ID = ident, Token_UserID = ''u1'',
      Token_AccessToken = issued_token iat (iat + 900),
      Token_RefreshToken = issued_token iat (iat + 604800),
      Token_ExpiresAt = iat * Second + Days7,
      Token_Revoked = False, Token_CreatedAt = iat * Second\<rparr>"

definition example_db_session :: db where
  "example_db_session = \<lparr>users = [example_user], tokens = [issued_session ''s1'' 5]\<rparr>"

definition example_db_two_sessions :: db where
  "example_db_two_sessions =
     \<lparr>users = [example_user], tokens = [issued_session ''s1'' 5, issued_session ''s2'' 7]\<rparr>"

definition example_db_rotated :: db where
  "example_db_rotated =
     \<lparr>users = [example_user],
      tokens = [(issued_session ''s1'' 5)\<lparr>Token_Revoked := True\<rparr>, issued_session ''s2'' 7]\<rparr>"



text \<open>
  Two logins of the example identity within one second, at 5.0 s and at 5.3 s: the
  second session row carries the same access and refresh tokens as the first, under an
  ID of its own. The last store is the one after the logout with these tokens.
\<close>

definition twin_session :: Token where
  "twin_session =
     (issued_session ''s2'' 5)\<lparr>Token_ExpiresAt := 5 * Second + 300000000 + Days7,
                               Token_CreatedAt := 5 * Second + 300000000\<rparr>"

definition example_db_twin_sessions :: db where
  "example_db_twin_sessions =
     \<lparr>users = [example_user], tokens = [issued_session ''s1'' 5, twin_session]\<rparr>"

definition example_db_twin_logout :: db where
  "example_db_twin_logout =
     \<lparr>users = [example_user],
      tokens = [issued_session ''s1'' 5, twin_session\<lparr>Token_Revoked := True\<rparr>]\<rparr>"

lemma example_login_stores_session:
  "\<not> isl (fst (Login example_usecase (env_at (5 * Second) ''s1'') example_db example_login))
   \<and> snd (Login example_usecase (env_at (5 * Second) ''s1'') example_db example_login)
       = example_db_session"
  by code_simp

lemma example_second_login_stores_session:
  "snd (Login example_usecase (env_at (7 * Second) ''s2'') example_db_session example_login)
     = example_db_two_sessions"
  by code_simp


section \<open>Session validity\<close>

text \<open>
  C7 (as stated): a session is valid if and only if it is not revoked and the current
  time is strictly before its expiry. This fails at the instant of expiry itself:
  \<^verbatim>\<open>IsExpired\<close> is \<^verbatim>\<open>time.Now().After(t.ExpiresAt)\<close>, which is false when the two instants
  are equal, so a session that is not revoked is still valid at that instant.
\<close>

theorem IsValid_at_expiry_counterexample:
  "\<not> (IsValid 100 example_session
        \<longleftrightarrow> (\<not> Token_Revoked example_session \<and> 100 < Token_ExpiresAt example_session))"
  by (simp add: IsValid_def IsExpired_def After_def example_session_def)

text \<open>
  C7 (amended): \<^verbatim>\<open>IsExpired\<close> and \<^verbatim>\<open>IsValid\<close> are functions of the session value and the
  current time only; a session is expired if and only if the current time is after its
  expiry, and valid if and only if it is not revoked and the current time is not after
  its expiry (the instant of expiry included).
\<close>

theorem IsValid_iff_not_revoked_not_after:
  "(IsExpired now t \<longleftrightarrow> Token_ExpiresAt t < now)
   \<and> (IsValid now t \<longleftrightarrow> (\<not> Token_Revoked t \<and> now \<le> Token_ExpiresAt t))"
  by (auto simp add: IsValid_def IsExpired_def After_def)

theorem IsValid_iff_not_revoked_not_after_witness:
  "IsValid 100 example_session \<and> \<not> IsValid 101 example_session
   \<and> \<not> IsValid 100 (example_session\<lparr>Token_Revoked := True\<rparr>)"
  using IsValid_iff_not_revoked_not_after [of 100 example_session]
    IsValid_iff_not_revoked_not_after [of 101 example_session]
    IsValid_iff_not_revoked_not_after [of 100 "example_session\<lparr>Token_Revoked := True\<rparr>"]
  by (simp add: example_session_def)

section \<open>Lookups that find no row\<close>

lemma GetContext_Inr:
  "GetContext f rows = Inr r \<Longrightarrow> f = None \<and> rows \<noteq> [] \<and> r = hd rows"
  by (auto simp add: GetContext_def split: option.splits list.splits)

lemma GetToken_error_never_ErrNotFound:
  "GetTokenByRefreshToken f d tok = Inl err \<Longrightarrow> \<not> Is err ErrNotFound"
  "GetTokenByAccessToken f d tok = Inl err \<Longrightarrow> \<not> Is err ErrNotFound"
  by (auto simp add: GetTokenByRefreshToken_def GetTokenByAccessToken_def GetContext_def
      token_handleError_def Wrap_def split: option.splits list.splits sum.splits)

lemma GetUser_error_never_ErrNotFound:
  "GetUserByEmail f d email = Inl err \<Longrightarrow> \<not> Is err ErrNotFound"
  "GetUserByID f d ident = Inl err \<Longrightarrow> \<not> Is err ErrNotFound"
  by (auto simp add: GetUserByEmail_def GetUserByID_def GetContext_def
      user_handleError_def Wrap_def split: option.splits list.splits sum.splits)

text \<open>
  C4: for every token string with no matching stored session row,
  \<^verbatim>\<open>GetTokenByRefreshToken\<close> and \<^verbatim>\<open>GetTokenByAccessToken\<close> fail with an error that satisfies
  \<^verbatim>\<open>errors.Is(err, ErrNotFound)\<close>. The code does not do this: \<^verbatim>\<open>sqlx\<close> reports the empty
  result as \<^verbatim>\<open>sql.ErrNoRows\<close>, and \<^verbatim>\<open>handleError\<close> only wraps it as "database error", so
  the error returned has \<^verbatim>\<open>sql.ErrNoRows\<close> in its chain and not \<^verbatim>\<open>ErrNotFound\<close>.
\<close>

theorem GetToken_no_row_not_ErrNotFound:
  assumes "\<forall>t \<in> set (tokens d). Token_RefreshToken t \<noteq> tok"
    and "\<forall>t \<in> set (tokens d). Token_AccessToken t \<noteq> tok"
  shows "GetTokenByRefreshToken None d tok = Inl (Errorf ''database error'' SqlErrNoRows)
       \<and> GetTokenByAccessToken None d tok = Inl (Errorf ''database error'' SqlErrNoRows)
       \<and> \<not> Is (Errorf ''database error'' SqlErrNoRows) ErrNotFound"
proof -
  have r: "filter (\<lambda>t. Token_RefreshToken t = tok) (tokens d) = []"
    using assms(1) by simp
  have a: "filter (\<lambda>t. Token_AccessToken t = tok) (tokens d) = []"
    using assms(2) by simp
  show ?thesis
    by (simp add: GetTokenByRefreshToken_def GetTokenByAccessToken_def r a
        order_by_created_at_desc_def GetContext_def token_handleError_def Wrap_def)
qed

theorem GetToken_no_row_not_ErrNotFound_witness:
  "GetTokenByRefreshToken None example_db_session (Opaque ''x'')
     = Inl (Errorf ''database error'' SqlErrNoRows)
   \<and> GetTokenByAccessToken None example_db_session (Opaque ''x'')
     = Inl (Errorf ''database error'' SqlErrNoRows)
   \<and> \<not> Is (Errorf ''database error'' SqlErrNoRows) ErrNotFound"
  using GetToken_no_row_not_ErrNotFound [of example_db_session "Opaque ''x''"]
  by (simp add: example_db_session_def issued_session_def issued_token_def)

section \<open>Login\<close>

lemma Login_wrong_password:
  assumes "GetUserByEmail (fault e 0) d (LoginRequest_Email req) = Inr user"
    and "\<not> Verify (passwordHasher a) (LoginRequest_Password req) (User_PasswordHash user)"
  shows "Login a e d req = (Inl ErrInvalidCredentials, d)"
  using assms by (simp add: Login_def)

text \<open>
  C3: \<^verbatim>\<open>Login\<close> returns the same error \<^verbatim>\<open>ErrInvalidCredentials\<close> when no identity with the
  email exists and when the identity exists but the password does not verify. The code
  does the second (\<open>Login_wrong_password\<close> above) and not the first: when no identity has the
  email and the lookup statement executes, \<^verbatim>\<open>GetUserByEmail\<close> returns \<^verbatim>\<open>sql.ErrNoRows\<close>
  wrapped as "database error", which is not \<^verbatim>\<open>ErrNotFound\<close>, so \<^verbatim>\<open>Login\<close> returns it wrapped
  as "failed to get user", an error that is not \<^verbatim>\<open>ErrInvalidCredentials\<close>, while a wrong
  password for an existing identity gives \<^verbatim>\<open>ErrInvalidCredentials\<close>.
\<close>

theorem Login_unknown_email_distinguishable:
  assumes "\<forall>u \<in> set (users d).
             \<not> (User_Email u = LoginRequest_Email req \<and> User_Status u \<noteq> ''deleted'')"
    and "fault e 0 = None"
  shows "fst (Login a e d req)
           = Inl (Errorf ''failed to get user'' (Errorf ''database error'' SqlErrNoRows))
       \<and> fst (Login a e d req) \<noteq> Inl ErrInvalidCredentials
       \<and> \<not> Is (Errorf ''failed to get user'' (Errorf ''database error'' SqlErrNoRows))
              ErrInvalidCredentials"
proof -
  have "filter (\<lambda>u. User_Email u = LoginRequest_Email req \<and> User_Status u \<noteq> ''deleted'')
          (users d) = []"
    using assms(1) by simp
  then show ?thesis
    using assms(2)
    by (simp add: Login_def GetUserByEmail_def GetContext_def user_handleError_def Wrap_def)
qed

theorem Login_unknown_email_distinguishable_witness:
  "fst (Login example_usecase (env_at (5 * Second) ''s1'') example_db
          (example_login\<lparr>LoginRequest_Email := ''b@x.com''\<rparr>))
     = Inl (Errorf ''failed to get user'' (Errorf ''database error'' SqlErrNoRows))
   \<and> fst (Login example_usecase (env_at (5 * Second) ''s1'') example_db
          (example_login\<lparr>LoginRequest_Password := ''wrongpassword''\<rparr>))
     = Inl ErrInvalidCredentials"
proof -
  have "fst (Login example_usecase (env_at (5 * Second) ''s1'') example_db
          (example_login\<lparr>LoginRequest_Password := ''wrongpassword''\<rparr>))
     = Inl ErrInvalidCredentials"
    by code_simp
  then show ?thesis
    using Login_unknown_email_distinguishable
      [of example_db "example_login\<lparr>LoginRequest_Email := ''b@x.com''\<rparr>"
          "env_at (5 * Second) ''s1''" example_usecase]
    by (simp add: example_db_def example_user_def example_login_def env_at_def fault_def)
qed


section \<open>Token validation by the orchestrator\<close>

lemma issued_access_token_valid:
  "JWTManager_ValidateToken (jwtManager example_usecase) (env_now (env_at (6 * Second) ''s1''))
     (issued_token 5 905) = Inr (issued_claims 5 905)"
  by code_simp

text \<open>
  C1: for a token that passes the issuer's validation, the orchestrator's
  \<^verbatim>\<open>ValidateToken\<close> (a) returns the claims when the store holds no session row with that
  access token, and (b) fails with \<^verbatim>\<open>ErrTokenRevoked\<close> when the row found is not valid.
  The code does (b) and not (a): with no matching row (and the lookup statement
  executing) the lookup returns \<^verbatim>\<open>sql.ErrNoRows\<close> wrapped as "database error", the test
  \<^verbatim>\<open>errors.Is(err, ErrNotFound)\<close> is false, and \<^verbatim>\<open>ValidateToken\<close> fails with that error
  wrapped as "failed to get stored token".
\<close>

theorem ValidateToken_no_row_fails:
  assumes "JWTManager_ValidateToken (jwtManager a) (env_now e) t = Inr claims"
  shows "((\<forall>s \<in> set (tokens d). Token_AccessToken s \<noteq> t) \<and> fault e 0 = None
            \<longrightarrow> ValidateToken a e d t
                  = Inl (Errorf ''failed to get stored token''
                           (Errorf ''database error'' SqlErrNoRows)))
       \<and> (\<forall>storedToken. GetTokenByAccessToken (fault e 0) d t = Inr storedToken
                          \<and> \<not> IsValid (env_now e) storedToken
            \<longrightarrow> ValidateToken a e d t = Inl ErrTokenRevoked)"
proof (intro conjI impI allI)
  assume h: "(\<forall>s \<in> set (tokens d). Token_AccessToken s \<noteq> t) \<and> fault e 0 = None"
  then have "filter (\<lambda>s. Token_AccessToken s = t) (tokens d) = []"
    by simp
  then have "GetTokenByAccessToken None d t = Inl (Errorf ''database error'' SqlErrNoRows)"
    by (simp add: GetTokenByAccessToken_def order_by_created_at_desc_def GetContext_def
        token_handleError_def Wrap_def)
  then show "ValidateToken a e d t
               = Inl (Errorf ''failed to get stored token''
                        (Errorf ''database error'' SqlErrNoRows))"
    using assms h by (simp add: ValidateToken_def)
next
  fix storedToken
  assume "GetTokenByAccessToken (fault e 0) d t = Inr storedToken
            \<and> \<not> IsValid (env_now e) storedToken"
  then show "ValidateToken a e d t = Inl ErrTokenRevoked"
    using assms by (simp add: ValidateToken_def)
qed

theorem ValidateToken_no_row_fails_witness:
  "ValidateToken example_usecase (env_at (6 * Second) ''s1'') example_db (issued_token 5 905)
     = Inl (Errorf ''failed to get stored token'' (Errorf ''database error'' SqlErrNoRows))
   \<and> ValidateToken example_usecase (env_at (6 * Second) ''s1'') example_db_rotated
        (issued_token 5 905) = Inl ErrTokenRevoked"
proof -
  have g: "GetTokenByAccessToken (fault (env_at (6 * Second) ''s1'') 0) example_db_rotated
             (issued_token 5 905) = Inr ((issued_session ''s1'' 5)\<lparr>Token_Revoked := True\<rparr>)"
    by code_simp
  have i: "\<not> IsValid (env_now (env_at (6 * Second) ''s1''))
               ((issued_session ''s1'' 5)\<lparr>Token_Revoked := True\<rparr>)"
    by (simp add: IsValid_def)
  have n: "(\<forall>s \<in> set (tokens example_db). Token_AccessToken s \<noteq> issued_token 5 905)
             \<and> fault (env_at (6 * Second) ''s1'') 0 = None"
    by (simp add: example_db_def env_at_def fault_def)
  from ValidateToken_no_row_fails [OF issued_access_token_valid, of example_db,
      THEN conjunct1, rule_format, OF n]
    ValidateToken_no_row_fails [OF issued_access_token_valid, of example_db_rotated,
      THEN conjunct2, rule_format, OF conjI, OF g i]
  show ?thesis by simp
qed

section \<open>Revoking all sessions of an identity\<close>

text \<open>
  C10: \<^verbatim>\<open>RevokeAllTokens(identityID)\<close> returns no error when its statement executes, also
  when the identity has no stored session, and whatever happens it never fails with
  \<^verbatim>\<open>ErrNotFound\<close>; \<^verbatim>\<open>RevokeToken(id)\<close>, in contrast, fails with \<^verbatim>\<open>ErrNotFound\<close> when no
  session row has the ID.
\<close>

theorem RevokeAllTokens_never_ErrNotFound:
  "(fault e 0 = None \<longrightarrow> fst (RevokeAllTokens a e d userID) = None)
   \<and> (\<forall>err. fst (RevokeAllTokens a e d userID) = Some err \<longrightarrow> \<not> Is err ErrNotFound)
   \<and> ((\<forall>t \<in> set (tokens d). Token_ID t \<noteq> ident)
        \<longrightarrow> fst (RevokeToken None d ident) = Some ErrNotFound)"
  by (auto simp add: RevokeAllTokens_def RevokeUserTokens_def RevokeToken_def Let_def
      split: option.splits)

theorem RevokeAllTokens_never_ErrNotFound_witness:
  "fst (RevokeAllTokens example_usecase (env_at 5 ''s1'') example_db ''u1'') = None
   \<and> fst (RevokeToken None example_db ''s1'') = Some ErrNotFound"
  using RevokeAllTokens_never_ErrNotFound
    [of "env_at 5 ''s1''" example_usecase example_db "''u1''" "''s1''"]
  by (simp add: example_db_def env_at_def fault_def)

section \<open>Password hashing\<close>

text \<open>
  C9 (as stated): \<^verbatim>\<open>Hash\<close> fails with \<^verbatim>\<open>ErrPasswordTooShort\<close> for a password shorter than
  8, and returns a hash without error for every password of length at least 8. The
  second part fails for a password longer than 72 bytes: bcrypt refuses it, and
  \<^verbatim>\<open>Hash\<close> returns bcrypt's error.
\<close>

theorem Hash_too_long_counterexample:
  "8 \<le> length (replicate 73 CHR ''a'')
   \<and> Hash NewPasswordHandler (Inr ''salt'') (replicate 73 CHR ''a'') = Inl BcryptErrPasswordTooLong"
  by (simp add: Hash_def GenerateFromPassword_def)

text \<open>
  C9 (amended): \<^verbatim>\<open>Hash\<close> fails with \<^verbatim>\<open>ErrPasswordTooShort\<close> when the password has fewer
  than 8 bytes; for a password of 8 to 72 bytes (with a cost not above bcrypt's maximum,
  as the handler's constructor sets it, and a salt delivered by the random source) it
  returns a bcrypt hash of the password without error; for a password of more than 72
  bytes it fails with bcrypt's password-too-long error.
\<close>

theorem Hash_length_bounds:
  "(length password < 8 \<longrightarrow> Hash p rnd password = Inl ErrPasswordTooShort)
   \<and> (8 \<le> length password \<and> length password \<le> 72 \<and> cost p \<le> MaxCost
        \<longrightarrow> Hash p (Inr salt) password
              = Inr (BcryptHash (if cost p < MinCost then DefaultCost else cost p) salt
                       (bcrypt_key password)))
   \<and> (72 < length password \<longrightarrow> Hash p rnd password = Inl BcryptErrPasswordTooLong)"
  by (auto simp add: Hash_def GenerateFromPassword_def Let_def MinCost_def MaxCost_def
      DefaultCost_def)

theorem Hash_length_bounds_witness:
  "Hash NewPasswordHandler (Inr ''salt'') ''short'' = Inl ErrPasswordTooShort
   \<and> Hash NewPasswordHandler (Inr ''salt'') ''longenough1''
       = Inr (BcryptHash 10 ''salt'' (bcrypt_key ''longenough1''))
   \<and> Hash NewPasswordHandler (Inr ''salt'') (replicate 73 CHR ''a'') = Inl BcryptErrPasswordTooLong"
  using Hash_length_bounds [of "''short''" NewPasswordHandler "Inr ''salt''" "''salt''"]
    Hash_length_bounds [of "''longenough1''" NewPasswordHandler "Inr ''salt''" "''salt''"]
    Hash_length_bounds [of "replicate 73 CHR ''a''" NewPasswordHandler "Inr ''salt''" "''salt''"]
  by (simp add: NewPasswordHandler_def MinCost_def MaxCost_def DefaultCost_def)


section \<open>The signing algorithm\<close>

lemma GetSigningMethod_not_HMAC:
  assumes "alg \<noteq> ''HS256''" "alg \<noteq> ''HS384''" "alg \<noteq> ''HS512''"
  shows "GetSigningMethod alg \<noteq> Some (SigningMethodHMAC h)"
  using assms unfolding GetSigningMethod_def by simp

lemma GetSigningMethod_HMAC_iff:
  "GetSigningMethod alg = Some (SigningMethodHMAC h) \<longleftrightarrow>
     (alg = ''HS256'' \<and> h = SHA256) \<or> (alg = ''HS384'' \<and> h = SHA384) \<or> (alg = ''HS512'' \<and> h = SHA512)"
proof (cases "alg = ''HS256''")
  case True
  then show ?thesis by (simp add: GetSigningMethod_def eq_commute)
next
  case n1: False
  show ?thesis
  proof (cases "alg = ''HS384''")
    case True
    then show ?thesis by (simp add: GetSigningMethod_def eq_commute)
  next
    case n2: False
    show ?thesis
    proof (cases "alg = ''HS512''")
      case True
      then show ?thesis by (simp add: GetSigningMethod_def eq_commute)
    next
      case False
      with n1 n2 show ?thesis using GetSigningMethod_not_HMAC [of alg h] by simp
    qed
  qed
qed

lemma ParseWithClaims_Inr:
  assumes "ParseWithClaims now (Compact hdr c sg) (keyFunc j) = Inr token"
  shows "\<exists>alg h. Header_alg hdr = Some alg \<and> GetSigningMethod alg = Some (SigningMethodHMAC h)
           \<and> sg = HMAC h (secret j) hdr c \<and> JwtToken_Claims token = c \<and> JwtToken_Valid token"
proof -
  from assms obtain alg where alg: "Header_alg hdr = Some alg"
    by (cases "Header_alg hdr") (simp_all add: ParseWithClaims_def)
  from assms alg obtain m where m: "GetSigningMethod alg = Some m"
    by (cases "GetSigningMethod alg") (simp_all add: ParseWithClaims_def)
  let ?tok = "\<lparr>JwtToken_Method = m, JwtToken_Header = hdr, JwtToken_Claims = c, JwtToken_Valid = False\<rparr>"
  from assms alg m obtain key where key: "keyFunc j ?tok = Inr key"
    by (cases "keyFunc j ?tok") (simp_all add: ParseWithClaims_def Let_def)
  then obtain h where h: "m = SigningMethodHMAC h" and k: "key = secret j"
    by (cases m) (simp_all add: keyFunc_def)
  from assms alg m key have v: "Verify_sig m hdr c sg key"
    by (simp add: ParseWithClaims_def Let_def split: if_splits)
  from assms alg m key v have "token = ?tok\<lparr>JwtToken_Valid := True\<rparr>"
    by (simp add: ParseWithClaims_def Let_def split: list.splits)
  with alg m h k v show ?thesis
    by (simp add: Verify_sig_def)
qed

lemma ParseWithClaims_non_HMAC:
  assumes "Header_alg hdr \<notin> {Some ''HS256'', Some ''HS384'', Some ''HS512''}"
  shows "ParseWithClaims now (Compact hdr c sg) (keyFunc j) = Inl [JwtErrTokenUnverifiable]"
proof (cases "Header_alg hdr")
  case None
  then show ?thesis by (simp add: ParseWithClaims_def)
next
  case (Some alg)
  show ?thesis
  proof (cases "GetSigningMethod alg")
    case None
    with Some show ?thesis by (simp add: ParseWithClaims_def)
  next
    case (Some m)
    have "\<forall>h. m \<noteq> SigningMethodHMAC h"
      using assms Some \<open>Header_alg hdr = Some alg\<close> GetSigningMethod_HMAC_iff [of alg] by auto
    then have "keyFunc j \<lparr>JwtToken_Method = m, JwtToken_Header = hdr,
                 JwtToken_Claims = c, JwtToken_Valid = False\<rparr> = Inl (ErrorsNew ''unexpected signing method'')"
      by (cases m) (simp_all add: keyFunc_def)
    with Some \<open>Header_alg hdr = Some alg\<close> show ?thesis
      by (simp add: ParseWithClaims_def Let_def)
  qed
qed

text \<open>
  C5 (as stated): every token whose header declares an algorithm other than HS256 is
  rejected with \<^verbatim>\<open>ErrInvalidToken\<close>. The key function of \<^verbatim>\<open>ValidateToken\<close> accepts every
  method of the HMAC family, so a token that declares HS384 and carries the HMAC-SHA384
  of its header and claims under the configured secret is accepted, and its claims are
  returned.
\<close>

theorem ValidateToken_accepts_HS384_counterexample:
  "Header_alg (header_with_alg ''HS384'') \<noteq> Some ''HS256''
   \<and> JWTManager_ValidateToken example_manager (6 * Second)
        (Compact (header_with_alg ''HS384'') (issued_claims 5 905)
           (HMAC SHA384 (secret example_manager) (header_with_alg ''HS384'')
              (issued_claims 5 905)))
      = Inr (issued_claims 5 905)"
  by code_simp

text \<open>
  C5 (amended): every token whose header declares no algorithm or an algorithm outside
  the HMAC family HS256, HS384, HS512 (the "none" algorithm included) is rejected with
  \<^verbatim>\<open>ErrInvalidToken\<close>, whatever its signature bytes, claims and the time; and
  \<^verbatim>\<open>ValidateToken\<close> returns claims only for a token that declares an HMAC algorithm and
  whose signature is that HMAC of its header and claims under the configured secret, and
  then the claims returned are the token's.
\<close>

theorem ValidateToken_rejects_non_HMAC:
  "(Header_alg hdr \<notin> {Some ''HS256'', Some ''HS384'', Some ''HS512''}
      \<longrightarrow> JWTManager_ValidateToken j now (Compact hdr c sg) = Inl ErrInvalidToken)
   \<and> (JWTManager_ValidateToken j now (Compact hdr c sg) = Inr c'
      \<longrightarrow> c' = c \<and> (\<exists>alg h. Header_alg hdr = Some alg
                     \<and> GetSigningMethod alg = Some (SigningMethodHMAC h)
                     \<and> sg = HMAC h (secret j) hdr c))"
proof (intro conjI impI)
  assume "Header_alg hdr \<notin> {Some ''HS256'', Some ''HS384'', Some ''HS512''}"
  then show "JWTManager_ValidateToken j now (Compact hdr c sg) = Inl ErrInvalidToken"
    by (simp add: JWTManager_ValidateToken_def ParseWithClaims_non_HMAC)
next
  assume ok: "JWTManager_ValidateToken j now (Compact hdr c sg) = Inr c'"
  then obtain token where p: "ParseWithClaims now (Compact hdr c sg) (keyFunc j) = Inr token"
    and c': "c' = JwtToken_Claims token"
    by (auto simp add: JWTManager_ValidateToken_def split: sum.splits if_splits)
  from ParseWithClaims_Inr [OF p] c'
  show "c' = c" by auto
  from ParseWithClaims_Inr [OF p]
  show "\<exists>alg h. Header_alg hdr = Some alg \<and> GetSigningMethod alg = Some (SigningMethodHMAC h)
          \<and> sg = HMAC h (secret j) hdr c" by auto
qed

theorem ValidateToken_rejects_non_HMAC_witness:
  "JWTManager_ValidateToken example_manager (6 * Second)
      (Compact (header_with_alg ''none'') (issued_claims 5 905) (SigOther [])) = Inl ErrInvalidToken
   \<and> JWTManager_ValidateToken example_manager (6 * Second)
      (Compact (header_with_alg ''RS256'') (issued_claims 5 905)
         (HMAC SHA256 (secret example_manager) (header_with_alg ''RS256'') (issued_claims 5 905)))
        = Inl ErrInvalidToken
   \<and> HMAC SHA256 ''k'' (header_with_alg ''HS256'') (issued_claims 5 905)
        = HMAC SHA256 (secret example_manager) (header_with_alg ''HS256'') (issued_claims 5 905)"
proof -
  have a: "Header_alg (header_with_alg ''none'') \<notin> {Some ''HS256'', Some ''HS384'', Some ''HS512''}"
    by (simp add: header_with_alg_def)
  have b: "Header_alg (header_with_alg ''RS256'') \<notin> {Some ''HS256'', Some ''HS384'', Some ''HS512''}"
    by (simp add: header_with_alg_def)
  have c: "JWTManager_ValidateToken example_manager (6 * Second)
             (Compact (header_with_alg ''HS256'') (issued_claims 5 905)
                (HMAC SHA256 ''k'' (header_with_alg ''HS256'') (issued_claims 5 905)))
           = Inr (issued_claims 5 905)"
    by code_simp
  show ?thesis
    using ValidateToken_rejects_non_HMAC [THEN conjunct1, rule_format, OF a]
      ValidateToken_rejects_non_HMAC [THEN conjunct1, rule_format, OF b]
      ValidateToken_rejects_non_HMAC [THEN conjunct2, rule_format, OF c]
    by blast
qed


section \<open>Lookups after a revocation\<close>

lemma hd_order_by_created_at_desc_in_set:
  "rows \<noteq> [] \<Longrightarrow> hd (order_by_created_at_desc rows) \<in> set rows"
  by (metis hd_in_set length_0_conv length_sort order_by_created_at_desc_def set_sort)

lemma GetTokenByRefreshToken_Inr:
  assumes "GetTokenByRefreshToken f d rt = Inr tok"
  shows "f = None \<and> tok \<in> set (tokens d) \<and> Token_RefreshToken tok = rt"
proof -
  let ?rows = "filter (\<lambda>t. Token_RefreshToken t = rt) (tokens d)"
  from assms obtain r where r: "GetContext f (order_by_created_at_desc ?rows) = Inr r" and "tok = r"
    by (auto simp add: GetTokenByRefreshToken_def split: sum.splits)
  from GetContext_Inr [OF r] have f: "f = None" and ne: "order_by_created_at_desc ?rows \<noteq> []"
    and hd: "r = hd (order_by_created_at_desc ?rows)" by auto
  from ne have "?rows \<noteq> []" by (auto simp add: order_by_created_at_desc_def)
  then have "r \<in> set ?rows" using hd hd_order_by_created_at_desc_in_set by blast
  with f \<open>tok = r\<close> show ?thesis by auto
qed




lemma filter_refresh_update_revoked:
  "filter (\<lambda>t. Token_RefreshToken t = rt) (update_revoked P rows)
     = update_revoked P (filter (\<lambda>t. Token_RefreshToken t = rt) rows)"
  unfolding update_revoked_def by (induction rows) simp_all

lemma filter_access_update_revoked:
  "filter (\<lambda>t. Token_AccessToken t = tok) (update_revoked P rows)
     = update_revoked P (filter (\<lambda>t. Token_AccessToken t = tok) rows)"
  unfolding update_revoked_def by (induction rows) simp_all



lemma update_revoked_no_match:
  "(\<forall>t \<in> set rows. \<not> P t) \<Longrightarrow> update_revoked P rows = rows"
  unfolding update_revoked_def by (induction rows) simp_all

lemma RevokeToken_None:
  assumes "RevokeToken f d ident = (None, d1)"
  shows "f = None \<and> d1 = d\<lparr>tokens := update_revoked (\<lambda>t. Token_ID t = ident) (tokens d)\<rparr>"
  using assms by (auto simp add: RevokeToken_def Let_def split: option.splits if_splits)






lemma RefreshToken_revoked_row:
  assumes "GetTokenByRefreshToken (fault e 0) d rt = Inr tok" and "\<not> IsValid (env_now e) tok"
  shows "RefreshToken a e d rt = (Inl ErrTokenExpired, d)"
  using assms by (simp add: RefreshToken_def)

lemma RefreshToken_all_revoked:
  assumes "\<forall>t \<in> set (tokens d). Token_RefreshToken t = rt \<longrightarrow> Token_Revoked t"
  shows "isl (fst (RefreshToken a e d rt))"
proof (cases "GetTokenByRefreshToken (fault e 0) d rt")
  case (Inl err)
  then show ?thesis by (simp add: RefreshToken_def)
next
  case (Inr tok)
  from GetTokenByRefreshToken_Inr [OF Inr] assms have "Token_Revoked tok" by blast
  then have "\<not> IsValid (env_now e) tok" by (simp add: IsValid_def)
  with Inr show ?thesis by (simp add: RefreshToken_revoked_row)
qed

section \<open>Logout\<close>

lemma Logout_success:
  assumes "Logout a e d accessToken refreshToken = (None, d')"
  shows "\<exists>old. GetTokenByRefreshToken None d refreshToken = Inr old
           \<and> Token_AccessToken old = accessToken
           \<and> d' = d\<lparr>tokens := update_revoked (\<lambda>t. Token_ID t = Token_ID old) (tokens d)\<rparr>"
proof -
  from assms obtain old where old: "GetTokenByRefreshToken (fault e 0) d refreshToken = Inr old"
    by (cases "GetTokenByRefreshToken (fault e 0) d refreshToken")
       (simp_all add: Logout_def split: if_splits)
  from assms old have acc: "Token_AccessToken old = accessToken"
    by (simp add: Logout_def split: if_splits)
  obtain r1 d1 where rv: "RevokeToken (fault e 1) d (Token_ID old) = (r1, d1)"
    by (cases "RevokeToken (fault e 1) d (Token_ID old)")
  from assms old acc rv have "r1 = None" and "d' = d1"
    by (cases r1; simp add: Logout_def)+
  with rv RevokeToken_None
  have "d' = d\<lparr>tokens := update_revoked (\<lambda>t. Token_ID t = Token_ID old) (tokens d)\<rparr>"
    by blast
  moreover from GetTokenByRefreshToken_Inr [OF old] old
  have "GetTokenByRefreshToken None d refreshToken = Inr old" by simp
  ultimately show ?thesis using acc by blast
qed

lemma update_revoked_distinct:
  assumes "distinct (map Token_ID rows)" and "i < length rows"
  shows "update_revoked (\<lambda>t. Token_ID t = Token_ID (rows ! i)) rows
           = rows[i := (rows ! i)\<lparr>Token_Revoked := True\<rparr>]"
proof (rule nth_equalityI)
  show "length (update_revoked (\<lambda>t. Token_ID t = Token_ID (rows ! i)) rows)
          = length (rows[i := (rows ! i)\<lparr>Token_Revoked := True\<rparr>])"
    by (simp add: update_revoked_def)
next
  fix j
  assume "j < length (update_revoked (\<lambda>t. Token_ID t = Token_ID (rows ! i)) rows)"
  then have j: "j < length rows" by (simp add: update_revoked_def)
  have "Token_ID (rows ! j) = Token_ID (rows ! i) \<longleftrightarrow> j = i"
    using assms j nth_eq_iff_index_eq [of "map Token_ID rows" j i] by auto
  with j assms(2)
  show "update_revoked (\<lambda>t. Token_ID t = Token_ID (rows ! i)) rows ! j
          = rows[i := (rows ! i)\<lparr>Token_Revoked := True\<rparr>] ! j"
    by (auto simp add: update_revoked_def)
qed

lemma GetTokenByAccessToken_frame:
  assumes "\<forall>t \<in> set (tokens d). P t \<longrightarrow> Token_AccessToken t \<noteq> tok"
  shows "GetTokenByAccessToken f (d\<lparr>tokens := update_revoked P (tokens d)\<rparr>) tok
           = GetTokenByAccessToken f d tok"
proof -
  have "update_revoked P (filter (\<lambda>t. Token_AccessToken t = tok) (tokens d))
          = filter (\<lambda>t. Token_AccessToken t = tok) (tokens d)"
    using assms by (intro update_revoked_no_match) auto
  then show ?thesis
    by (simp add: GetTokenByAccessToken_def filter_access_update_revoked)
qed

lemma GetTokenByRefreshToken_frame:
  assumes "\<forall>t \<in> set (tokens d). P t \<longrightarrow> Token_RefreshToken t \<noteq> rt"
  shows "GetTokenByRefreshToken f (d\<lparr>tokens := update_revoked P (tokens d)\<rparr>) rt
           = GetTokenByRefreshToken f d rt"
proof -
  have "update_revoked P (filter (\<lambda>t. Token_RefreshToken t = rt) (tokens d))
          = filter (\<lambda>t. Token_RefreshToken t = rt) (tokens d)"
    using assms by (intro update_revoked_no_match) auto
  then show ?thesis
    by (simp add: GetTokenByRefreshToken_def filter_refresh_update_revoked)
qed

lemma filter_ID_update_revoked:
  "length (filter (\<lambda>t. Token_ID t = ident) (update_revoked P rows))
     = length (filter (\<lambda>t. Token_ID t = ident) rows)"
  unfolding update_revoked_def by (induction rows) simp_all

lemma fst_RevokeToken_frame:
  "fst (RevokeToken f (d\<lparr>tokens := update_revoked P (tokens d)\<rparr>) ident)
     = fst (RevokeToken f d ident)"
  by (cases f) (simp_all add: RevokeToken_def Let_def filter_ID_update_revoked)

lemma fst_CreateToken:
  "fst (CreateToken f d t) = fst (CreateToken f d0 t)"
  by (cases f) (simp_all add: CreateToken_def)

lemma GetUserByID_tokens:
  "GetUserByID f (d\<lparr>tokens := ts\<rparr>) ident = GetUserByID f d ident"
  by (simp add: GetUserByID_def)

lemma fst_RefreshToken_frame:
  assumes "\<forall>t \<in> set (tokens d). P t \<longrightarrow> Token_RefreshToken t \<noteq> rt"
  shows "fst (RefreshToken a e (d\<lparr>tokens := update_revoked P (tokens d)\<rparr>) rt)
           = fst (RefreshToken a e d rt)"
proof -
  let ?d = "d\<lparr>tokens := update_revoked P (tokens d)\<rparr>"
  note g = GetTokenByRefreshToken_frame [OF assms]
  show ?thesis
  proof (cases "GetTokenByRefreshToken (fault e 0) d rt")
    case (Inl err)
    with g show ?thesis by (simp add: RefreshToken_def)
  next
    case (Inr old)
    show ?thesis
    proof (cases "IsValid (env_now e) old")
      case False
      with Inr g show ?thesis by (simp add: RefreshToken_def)
    next
      case True
      show ?thesis
      proof (cases "GetUserByID (fault e 1) d (Token_UserID old)")
        case (Inl err)
        with Inr True g show ?thesis by (simp add: RefreshToken_def GetUserByID_tokens)
      next
        case user: (Inr user)
        let ?gen = "GenerateTokenPair (jwtManager a) (env_now e) (User_ID user)
                (User_OrganizationID user) (User_RoleID user) (User_Email user)"
        show ?thesis
        proof (cases ?gen)
          case (Inl err)
          with Inr True user g show ?thesis by (simp add: RefreshToken_def GetUserByID_tokens)
        next
          case tp: (Inr tp)
          obtain r1 d1 where rv: "RevokeToken (fault e 2) d (Token_ID old) = (r1, d1)"
            by (cases "RevokeToken (fault e 2) d (Token_ID old)")
          obtain r1' d1' where rv': "RevokeToken (fault e 2) ?d (Token_ID old) = (r1', d1')"
            by (cases "RevokeToken (fault e 2) ?d (Token_ID old)")
          from rv rv' have r: "r1' = r1"
            by (metis fst_RevokeToken_frame fst_conv)
          obtain r2 d2 where cr: "CreateToken (fault e 3) d1 (newToken e user tp) = (r2, d2)"
            by (cases "CreateToken (fault e 3) d1 (newToken e user tp)")
          obtain r2' d2' where cr': "CreateToken (fault e 3) d1' (newToken e user tp) = (r2', d2')"
            by (cases "CreateToken (fault e 3) d1' (newToken e user tp)")
          from cr cr' have r2: "r2' = r2"
            by (metis fst_CreateToken fst_conv)
          from Inr True user tp rv rv' r cr cr' r2 g show ?thesis
            by (cases r1; cases r2)
               (simp_all add: RefreshToken_def GetUserByID_tokens Let_def newToken_def)
        qed
      qed
    qed
  qed
qed

text \<open>
  C8 (as stated): after a successful \<^verbatim>\<open>Logout(accessToken, refreshToken)\<close> only the
  targeted session is revoked, and every other stored session is unchanged and continues
  to validate. The second half fails for two sessions of one identity opened within the
  same second: their tokens are the same strings (claims with times in whole seconds, no
  token ID, HS256), both lookups take the newest row that carries the string, and
  \<^verbatim>\<open>Logout\<close> revokes that row by its ID. The older session's row is left as it was and
  is still valid, but its access token, accepted before the logout, is rejected with
  \<^verbatim>\<open>ErrTokenRevoked\<close> after it, and its refresh token is refused.
\<close>

theorem Logout_twin_session_counterexample:
  "Login example_usecase (env_at (5 * Second) ''s1'') example_db example_login
     = (Inr \<lparr>AuthResponse_User = ToUserInfo example_user,
             AuthResponse_AccessToken = issued_token 5 905,
             AuthResponse_RefreshToken = issued_token 5 604805,
             AuthResponse_ExpiresIn = 900, AuthResponse_TokenType = ''Bearer''\<rparr>,
        example_db_session)
   \<and> Login example_usecase (env_at (5 * Second + 300000000) ''s2'') example_db_session
        example_login
     = (Inr \<lparr>AuthResponse_User = ToUserInfo example_user,
             AuthResponse_AccessToken = issued_token 5 905,
             AuthResponse_RefreshToken = issued_token 5 604805,
             AuthResponse_ExpiresIn = 900, AuthResponse_TokenType = ''Bearer''\<rparr>,
        example_db_twin_sessions)
   \<and> distinct (map Token_ID (tokens example_db_twin_sessions))
   \<and> ValidateToken example_usecase (env_at (9 * Second) ''s3'') example_db_twin_sessions
        (Token_AccessToken (tokens example_db_twin_sessions ! 0))
     = Inr \<lparr>TokenClaims_UserID = ''u1'', TokenClaims_OrganizationID = ''o1'',
            TokenClaims_RoleID = ''r1'', TokenClaims_Name = [], TokenClaims_Username = [],
            TokenClaims_Email = ''a@x.com''\<rparr>
   \<and> Logout example_usecase (env_at (9 * Second) ''s3'') example_db_twin_sessions
        (issued_token 5 905) (issued_token 5 604805) = (None, example_db_twin_logout)
   \<and> tokens example_db_twin_logout ! 0 = tokens example_db_twin_sessions ! 0
   \<and> IsValid (9 * Second) (tokens example_db_twin_logout ! 0)
   \<and> ValidateToken example_usecase (env_at (9 * Second) ''s3'') example_db_twin_logout
        (Token_AccessToken (tokens example_db_twin_logout ! 0))
     = Inl ErrTokenRevoked
   \<and> fst (RefreshToken example_usecase (env_at (9 * Second) ''s3'') example_db_twin_logout
        (Token_RefreshToken (tokens example_db_twin_logout ! 0)))
     = Inl ErrTokenExpired"
  by code_simp

text \<open>
  C8 (amended): after a successful \<^verbatim>\<open>Logout(accessToken, refreshToken)\<close> on a store whose
  session IDs are distinct (they are drawn by \<^verbatim>\<open>uuid.New()\<close>), exactly one session row has
  been set to revoked, a row whose stored refresh token and access token are the supplied
  ones; every other row is unchanged, so it is valid at exactly the times at which it was
  valid before; every access token other than the supplied one validates exactly as
  before, and every refresh token other than the supplied one is refreshed with the same
  outcome as before, at any time and in any environment. Nothing is said of another
  session that carries the supplied token strings themselves.
\<close>

theorem Logout_revokes_only_target:
  assumes "Logout a e d accessToken refreshToken = (None, d')"
    and "distinct (map Token_ID (tokens d))"
  shows "\<exists>i < length (tokens d).
           Token_RefreshToken (tokens d ! i) = refreshToken
         \<and> Token_AccessToken (tokens d ! i) = accessToken
         \<and> d' = d\<lparr>tokens := (tokens d)[i := (tokens d ! i)\<lparr>Token_Revoked := True\<rparr>]\<rparr>
         \<and> (\<forall>j < length (tokens d). j \<noteq> i \<longrightarrow>
               tokens d' ! j = tokens d ! j
             \<and> (\<forall>now. IsValid now (tokens d' ! j) = IsValid now (tokens d ! j)))
         \<and> (\<forall>e' t. t \<noteq> accessToken \<longrightarrow> ValidateToken a e' d' t = ValidateToken a e' d t)
         \<and> (\<forall>e' r. r \<noteq> refreshToken \<longrightarrow>
               fst (RefreshToken a e' d' r) = fst (RefreshToken a e' d r))"
proof -
  from Logout_success [OF assms(1)] obtain old where
    old: "GetTokenByRefreshToken None d refreshToken = Inr old"
    and acc: "Token_AccessToken old = accessToken"
    and d': "d' = d\<lparr>tokens := update_revoked (\<lambda>t. Token_ID t = Token_ID old) (tokens d)\<rparr>"
    by blast
  from GetTokenByRefreshToken_Inr [OF old] have mem: "old \<in> set (tokens d)"
    and ref: "Token_RefreshToken old = refreshToken" by auto
  from mem obtain i where i: "i < length (tokens d)" and oi: "tokens d ! i = old"
    by (auto simp add: in_set_conv_nth)
  have upd: "update_revoked (\<lambda>t. Token_ID t = Token_ID old) (tokens d)
               = (tokens d)[i := (tokens d ! i)\<lparr>Token_Revoked := True\<rparr>]"
    using update_revoked_distinct [OF assms(2) i] oi by simp
  have only: "\<forall>t \<in> set (tokens d). Token_ID t = Token_ID old \<longrightarrow> t = old"
    using assms(2) mem by (auto simp add: distinct_map dest: inj_onD)
  have val: "ValidateToken a e' d' t = ValidateToken a e' d t" if "t \<noteq> accessToken" for e' t
  proof -
    have fr: "\<forall>s \<in> set (tokens d). Token_ID s = Token_ID old \<longrightarrow> Token_AccessToken s \<noteq> t"
      using only acc that by auto
    show ?thesis
      by (cases "JWTManager_ValidateToken (jwtManager a) (env_now e') t")
         (simp_all add: ValidateToken_def Let_def d' GetTokenByAccessToken_frame [OF fr])
  qed
  have rfr: "fst (RefreshToken a e' d' r) = fst (RefreshToken a e' d r)"
    if "r \<noteq> refreshToken" for e' r
  proof -
    have fr: "\<forall>s \<in> set (tokens d). Token_ID s = Token_ID old \<longrightarrow> Token_RefreshToken s \<noteq> r"
      using only ref that by auto
    show ?thesis unfolding d' by (rule fst_RefreshToken_frame [OF fr])
  qed
  have "d' = d\<lparr>tokens := (tokens d)[i := (tokens d ! i)\<lparr>Token_Revoked := True\<rparr>]\<rparr>"
    using d' upd by simp
  moreover from this have "\<forall>j < length (tokens d). j \<noteq> i \<longrightarrow>
      tokens d' ! j = tokens d ! j
    \<and> (\<forall>now. IsValid now (tokens d' ! j) = IsValid now (tokens d ! j))"
    by simp
  ultimately show ?thesis using i oi ref acc val rfr by blast
qed

theorem Logout_revokes_only_target_witness:
  "Logout example_usecase (env_at (9 * Second) ''s3'') example_db_two_sessions
       (issued_token 5 905) (issued_token 5 604805) = (None, example_db_rotated)
   \<and> distinct (map Token_ID (tokens example_db_two_sessions))
   \<and> tokens example_db_rotated ! 1 = tokens example_db_two_sessions ! 1
   \<and> ValidateToken example_usecase (env_at (9 * Second) ''s3'') example_db_rotated
         (issued_token 7 907)
       = ValidateToken example_usecase (env_at (9 * Second) ''s3'') example_db_two_sessions
           (issued_token 7 907)
   \<and> ValidateToken example_usecase (env_at (9 * Second) ''s3'') example_db_two_sessions
         (issued_token 7 907)
       = Inr \<lparr>TokenClaims_UserID = ''u1'', TokenClaims_OrganizationID = ''o1'',
              TokenClaims_RoleID = ''r1'', TokenClaims_Name = [], TokenClaims_Username = [],
              TokenClaims_Email = ''a@x.com''\<rparr>
   \<and> fst (RefreshToken example_usecase (env_at (9 * Second) ''s3'') example_db_rotated
            (issued_token 7 604807))
       = fst (RefreshToken example_usecase (env_at (9 * Second) ''s3'') example_db_two_sessions
            (issued_token 7 604807))
   \<and> \<not> isl (fst (RefreshToken example_usecase (env_at (9 * Second) ''s3'')
                   example_db_two_sessions (issued_token 7 604807)))"
proof -
  have s: "Logout example_usecase (env_at (9 * Second) ''s3'') example_db_two_sessions
             (issued_token 5 905) (issued_token 5 604805) = (None, example_db_rotated)"
    by code_simp
  have dist: "distinct (map Token_ID (tokens example_db_two_sessions))"
    by code_simp
  have ne: "issued_token 7 907 \<noteq> issued_token 5 905"
    by code_simp
  have ne2: "issued_token 7 604807 \<noteq> issued_token 5 604805"
    by code_simp
  have v: "ValidateToken example_usecase (env_at (9 * Second) ''s3'') example_db_two_sessions
             (issued_token 7 907)
           = Inr \<lparr>TokenClaims_UserID = ''u1'', TokenClaims_OrganizationID = ''o1'',
                  TokenClaims_RoleID = ''r1'', TokenClaims_Name = [], TokenClaims_Username = [],
                  TokenClaims_Email = ''a@x.com''\<rparr>"
    by code_simp
  have rs: "\<not> isl (fst (RefreshToken example_usecase (env_at (9 * Second) ''s3'')
                   example_db_two_sessions (issued_token 7 604807)))"
    by code_simp
  have r: "tokens example_db_rotated ! 1 = tokens example_db_two_sessions ! 1"
    by (simp add: example_db_rotated_def example_db_two_sessions_def)
  note t = Logout_revokes_only_target [OF s dist]
  from t ne
  have a: "ValidateToken example_usecase (env_at (9 * Second) ''s3'') example_db_rotated
          (issued_token 7 907)
        = ValidateToken example_usecase (env_at (9 * Second) ''s3'') example_db_two_sessions
            (issued_token 7 907)"
    by blast
  from t ne2
  have b: "fst (RefreshToken example_usecase (env_at (9 * Second) ''s3'') example_db_rotated
            (issued_token 7 604807))
       = fst (RefreshToken example_usecase (env_at (9 * Second) ''s3'') example_db_two_sessions
            (issued_token 7 604807))"
    by blast
  from s dist r a v b rs show ?thesis by simp
qed


section \<open>What a failed call leaves in the store\<close>









section \<open>Rotation of refresh tokens\<close>





end
